theory Spec2Isabelle
  imports
    Main
    "HOL-Library.Multiset"
    "HOL-Library.Char_ord"
    "HOL-Library.List_Lexorder"
    "HOL-Library.Product_Lexorder"
begin

section \<open>The routine generator of app.py\<close>

text \<open>
  This theory embeds the scheduling function \<^verbatim>\<open>generate_schedule_from_components\<close> of
  \<^verbatim>\<open>app.py\<close> and the helpers it calls. Python dictionaries with a fixed set of keys are
  records, the lists of the source are HOL lists, Python integers are \<open>int\<close> (counters that
  only count up from zero are \<open>nat\<close>), and the calls to the user interface
  (\<^verbatim>\<open>st.warning\<close>, \<^verbatim>\<open>st.error\<close>, \<^verbatim>\<open>st.info\<close>) are collected in a list of messages
  that is returned together with the data frame.
\<close>

subsection \<open>Helper functions\<close>

text \<open>
  A \<^verbatim>\<open>datetime.time\<close> object, as far as the source reads it: its hour and its minute.
  The value \<^verbatim>\<open>None\<close> is \<open>None\<close>.
\<close>

record time_obj =
  hour :: nat
  minute :: nat

definition time_to_minutes :: "time_obj option \<Rightarrow> int" where
  "time_to_minutes t =
     (case t of None \<Rightarrow> 0 | Some time \<Rightarrow> int (hour time) * 60 + int (minute time))"

text \<open>Decimal digits of a natural number, as \<^verbatim>\<open>str\<close> and the format \<^verbatim>\<open>d\<close> print them.\<close>

fun str_nat :: "nat \<Rightarrow> string" where
  "str_nat n =
     (if n < 10 then [''0123456789'' ! n]
      else str_nat (n div 10) @ [''0123456789'' ! (n mod 10)])"

declare str_nat.simps [simp del]

text \<open>
  The format \<^verbatim>\<open>:02d\<close>: the number in decimal, padded with a zero to two characters;
  the sign of a negative number counts as one of the two.
\<close>

definition format_02d :: "int \<Rightarrow> string" where
  "format_02d n =
     (if n < 0 then CHR ''-'' # str_nat (nat (- n))
      else if n < 10 then CHR ''0'' # str_nat (nat n)
      else str_nat (nat n))"

text \<open>Python's \<^verbatim>\<open>divmod\<close> rounds towards minus infinity, as \<open>div\<close> and \<open>mod\<close> on \<open>int\<close> do.\<close>

definition format_time_slot :: "int \<Rightarrow> int \<Rightarrow> string" where
  "format_time_slot start_minute duration_minute =
     (let end_minute = start_minute + duration_minute;
          start_h = start_minute div 60; start_m = start_minute mod 60;
          end_h = end_minute div 60; end_m = end_minute mod 60
      in format_02d start_h @ '':'' @ format_02d start_m @ ''-''
         @ format_02d end_h @ '':'' @ format_02d end_m)"

subsection \<open>Data\<close>

text \<open>
  A class component, the dictionary that the form of the second tab appends to
  \<^verbatim>\<open>st.session_state.class_components\<close>. The key \<^verbatim>\<open>id\<close> is the field \<open>comp_id\<close>.
  \<^verbatim>\<open>assigned_room\<close> is \<^verbatim>\<open>None\<close> for a theory component, and the name of a lab or the
  string \<^verbatim>\<open>Any Available Lab\<close> for a lab component.
\<close>

record component =
  comp_id :: string
  course_code :: string
  component_title :: string
  semester :: string
  sections :: "string list"
  class_type :: string
  sessions_per_week :: int
  duration_minutes :: int
  assigned_room :: "string option"

text \<open>A task: one session of one section of one component. Its keys carry the prefix \<open>task_\<close>.\<close>

record task =
  task_course_code :: string
  task_component_title :: string
  task_semester :: string
  task_section :: string
  task_class_type :: string
  task_duration_minutes :: int
  task_assigned_room :: "string option"
  task_id :: string

text \<open>A row of the schedule, with the columns of the data frame.\<close>

record row =
  Day :: string
  Time_Slot :: string
  Start_Minute :: int
  End_Minute :: int
  Semester :: string
  Section :: string
  Course_Code :: string
  Component_Title :: string
  Room_Lab :: string
  Type :: string
  Component_ID :: string

text \<open>
  The messages shown to the user: the warning at the start of every call, the three
  errors of the checks before the search, the warning for a task that could not be
  placed, and the note that no entry was generated.
\<close>

datatype message =
    Warning_Placeholder
  | Error_Missing_Components_Or_Days
  | Error_No_Classrooms
  | Error_No_Labs
  | Warning_Could_Not_Place task
  | Info_No_Entries

text \<open>What a call returns: the data frame (its rows in order) and the messages it showed.\<close>

record gen_result =
  schedule_df :: "row list"
  messages :: "message list"

subsection \<open>Expanding the components into tasks\<close>

definition make_task :: "component \<Rightarrow> string \<Rightarrow> nat \<Rightarrow> task" where
  "make_task cmp sec session_num =
     \<lparr> task_course_code = course_code cmp,
       task_component_title = component_title cmp,
       task_semester = semester cmp,
       task_section = sec,
       task_class_type = class_type cmp,
       task_duration_minutes = duration_minutes cmp,
       task_assigned_room = assigned_room cmp,
       task_id = comp_id cmp @ ''_'' @ sec @ ''_'' @ str_nat session_num \<rparr>"

text \<open>
  The three nested loops that fill \<^verbatim>\<open>tasks_to_schedule\<close>;
  \<^verbatim>\<open>range(n)\<close> is empty for \<open>n \<le> 0\<close>.
\<close>

definition tasks_to_schedule :: "component list \<Rightarrow> task list" where
  "tasks_to_schedule class_components =
     concat (map (\<lambda>cmp.
       concat (map (\<lambda>sec.
         map (\<lambda>session_num. make_task cmp sec session_num)
           [0 ..< nat (sessions_per_week cmp)])
         (sections cmp)))
       class_components)"

subsection \<open>The shuffle\<close>

text \<open>
  \<^verbatim>\<open>random.shuffle\<close> of the standard library exchanges, for \<open>i\<close> from the last index
  down to 1, the elements at \<open>i\<close> and at \<^verbatim>\<open>randbelow(i + 1)\<close>. The random source is the
  parameter \<open>rnd\<close>: \<open>rnd i\<close> is the number drawn at index \<open>i\<close>, reduced below \<open>i + 1\<close>.
\<close>

definition swap :: "nat \<Rightarrow> nat \<Rightarrow> 'a list \<Rightarrow> 'a list" where
  "swap i j xs = xs[i := xs ! j, j := xs ! i]"

fun shuffle_from :: "(nat \<Rightarrow> nat) \<Rightarrow> nat \<Rightarrow> 'a list \<Rightarrow> 'a list" where
  "shuffle_from rnd 0 xs = xs"
| "shuffle_from rnd (Suc i) xs = shuffle_from rnd i (swap (Suc i) (rnd (Suc i) mod (Suc i + 1)) xs)"

definition shuffle :: "(nat \<Rightarrow> nat) \<Rightarrow> 'a list \<Rightarrow> 'a list" where
  "shuffle rnd xs = shuffle_from rnd (length xs - 1) xs"

subsection \<open>The placement loop\<close>

text \<open>
  The state of the loop over the tasks: the entries appended so far and the two
  dictionaries keyed by the working days. Both dictionaries are created with every
  working day as a key and are read only at \<^verbatim>\<open>working_days[k]\<close> with \<open>k\<close> below the
  number of working days, so they are functions on the day names.
\<close>

record sched_state =
  schedule_entries :: "row list"
  current_slot_time_per_day :: "string \<Rightarrow> int"
  day_index_counter :: "string \<Rightarrow> nat"

text \<open>Truth of a value that is \<^verbatim>\<open>None\<close> or a string: neither \<^verbatim>\<open>None\<close> nor empty.\<close>

definition truthy :: "string option \<Rightarrow> bool" where
  "truthy v = (v \<noteq> None \<and> v \<noteq> Some [])"

text \<open>The room chosen for a task that fits, \<open>k\<close> being the counter of the current day.\<close>

definition room_to_use :: "string list \<Rightarrow> string list \<Rightarrow> task \<Rightarrow> nat \<Rightarrow> string option" where
  "room_to_use classrooms labs t k =
     (if task_class_type t = ''Theory'' then
        (if classrooms \<noteq> [] then Some (classrooms ! (k mod length classrooms)) else None)
      else if task_class_type t = ''Lab'' then
        (if truthy (task_assigned_room t) \<and> task_assigned_room t \<noteq> Some ''Any Available Lab''
         then task_assigned_room t
         else if labs \<noteq> [] then Some (labs ! (k mod length labs))
         else None)
      else None)"

definition make_row :: "task \<Rightarrow> string \<Rightarrow> int \<Rightarrow> string \<Rightarrow> row" where
  "make_row t current_day slot_start room =
     \<lparr> Day = current_day,
       Time_Slot = format_time_slot slot_start (task_duration_minutes t),
       Start_Minute = slot_start,
       End_Minute = slot_start + task_duration_minutes t,
       Semester = task_semester t,
       Section = task_section t,
       Course_Code = task_course_code t,
       Component_Title = task_component_title t,
       Room_Lab = room,
       Type = task_class_type t,
       Component_ID = task_id t \<rparr>"

text \<open>
  One pass through the body of the loop over the days. The result is the new state and
  whether the task was assigned (the \<^verbatim>\<open>break\<close>). A task that fits but gets no room
  leaves the cursor as it is; a task that does not fit resets the cursor of the day.
\<close>

definition attempt ::
  "string list \<Rightarrow> string list \<Rightarrow> string list \<Rightarrow> int \<Rightarrow> int \<Rightarrow> task \<Rightarrow> sched_state
     \<Rightarrow> sched_state \<times> bool" where
  "attempt classrooms labs working_days start_minutes_val end_minutes_val t s =
     (let day_idx = day_index_counter s (working_days ! 0) mod length working_days;
          current_day = working_days ! day_idx;
          s1 = s\<lparr>day_index_counter :=
                   (day_index_counter s)(working_days ! 0 := day_index_counter s (working_days ! 0) + 1)\<rparr>;
          slot_start = current_slot_time_per_day s1 current_day;
          slot_end = slot_start + task_duration_minutes t
      in if slot_end \<le> end_minutes_val then
           (let room = room_to_use classrooms labs t (day_index_counter s1 current_day)
            in if truthy room then
                 (s1\<lparr>schedule_entries :=
                        schedule_entries s1 @ [make_row t current_day slot_start (the room)],
                      current_slot_time_per_day :=
                        (current_slot_time_per_day s1)(current_day := slot_end + 5)\<rparr>, True)
               else (s1, False))
         else (s1\<lparr>current_slot_time_per_day :=
                     (current_slot_time_per_day s1)(current_day := start_minutes_val)\<rparr>, False))"

text \<open>The loop over the days: at most \<open>n\<close> passes, left at the first assignment.\<close>

fun try_days ::
  "string list \<Rightarrow> string list \<Rightarrow> string list \<Rightarrow> int \<Rightarrow> int \<Rightarrow> task \<Rightarrow> nat \<Rightarrow> sched_state
     \<Rightarrow> sched_state \<times> bool" where
  "try_days classrooms labs working_days start_minutes_val end_minutes_val t 0 s = (s, False)"
| "try_days classrooms labs working_days start_minutes_val end_minutes_val t (Suc n) s =
     (case attempt classrooms labs working_days start_minutes_val end_minutes_val t s of
        (s', True) \<Rightarrow> (s', True)
      | (s', False) \<Rightarrow>
          try_days classrooms labs working_days start_minutes_val end_minutes_val t n s')"

text \<open>
  The loop over the tasks. The second component collects, in order, the tasks for which
  the warning \<^verbatim>\<open>Could not place task\<close> is shown.
\<close>

fun place_tasks ::
  "string list \<Rightarrow> string list \<Rightarrow> string list \<Rightarrow> int \<Rightarrow> int \<Rightarrow> task list
     \<Rightarrow> sched_state \<times> task list \<Rightarrow> sched_state \<times> task list" where
  "place_tasks classrooms labs working_days start_minutes_val end_minutes_val [] acc = acc"
| "place_tasks classrooms labs working_days start_minutes_val end_minutes_val (t # ts) (s, unplaced) =
     (case try_days classrooms labs working_days start_minutes_val end_minutes_val t
             (length working_days) s of
        (s', assigned) \<Rightarrow>
          place_tasks classrooms labs working_days start_minutes_val end_minutes_val ts
            (s', if assigned then unplaced else unplaced @ [t]))"

definition initial_state :: "int \<Rightarrow> sched_state" where
  "initial_state start_minutes_val =
     \<lparr> schedule_entries = [],
       current_slot_time_per_day = (\<lambda>day. start_minutes_val),
       day_index_counter = (\<lambda>day. 0) \<rparr>"

subsection \<open>Sorting the data frame\<close>

text \<open>
  \<^verbatim>\<open>day_order_map\<close> maps a day to its index in the working days, the last one when a day
  occurs twice; a day that is no key gets the number of keys. \<^verbatim>\<open>sort_values\<close> on several
  columns orders the rows by the tuple of these columns and keeps rows with equal tuples
  in their order, as the insertion sort \<open>sort_key\<close> does.
\<close>

definition day_order_map :: "string list \<Rightarrow> string \<Rightarrow> nat option" where
  "day_order_map working_days = map_of (rev (zip working_days [0 ..< length working_days]))"

definition Day_Order :: "string list \<Rightarrow> row \<Rightarrow> nat" where
  "Day_Order working_days r =
     (case day_order_map working_days (Day r) of
        Some i \<Rightarrow> i
      | None \<Rightarrow> length (remdups working_days))"

definition sort_columns :: "string list \<Rightarrow> row \<Rightarrow> string \<times> nat \<times> int \<times> string \<times> string" where
  "sort_columns working_days r =
     (Semester r, Day_Order working_days r, Start_Minute r, Section r, Course_Code r)"

definition sort_values :: "string list \<Rightarrow> row list \<Rightarrow> row list" where
  "sort_values working_days rows = sort_key (sort_columns working_days) rows"

subsection \<open>The scheduling function\<close>

text \<open>
  The body of \<^verbatim>\<open>generate_schedule_from_components\<close>, with the random source of the
  shuffle as its first argument. The decorator \<^verbatim>\<open>st.cache_data\<close> returns a stored
  result when the arguments were seen before and runs the body otherwise; the function
  below is what a run of the body computes.
\<close>

definition needs_theory_room :: "component list \<Rightarrow> bool" where
  "needs_theory_room class_components =
     list_ex (\<lambda>c. class_type c = ''Theory'') class_components"

definition needs_lab_room_any :: "component list \<Rightarrow> bool" where
  "needs_lab_room_any class_components =
     list_ex (\<lambda>c. class_type c = ''Lab'' \<and> assigned_room c = Some ''Any Available Lab'')
       class_components"

definition generate_schedule_from_components ::
  "(nat \<Rightarrow> nat) \<Rightarrow> component list \<Rightarrow> string list \<Rightarrow> string list \<Rightarrow> string list
     \<Rightarrow> time_obj option \<Rightarrow> time_obj option \<Rightarrow> gen_result" where
  "generate_schedule_from_components rnd class_components classrooms labs working_days
       start_time_obj end_time_obj =
     (if class_components = [] \<or> working_days = [] then
        \<lparr> schedule_df = [], messages = [Warning_Placeholder, Error_Missing_Components_Or_Days] \<rparr>
      else if needs_theory_room class_components \<and> classrooms = [] then
        \<lparr> schedule_df = [], messages = [Warning_Placeholder, Error_No_Classrooms] \<rparr>
      else if needs_lab_room_any class_components \<and> labs = [] then
        \<lparr> schedule_df = [], messages = [Warning_Placeholder, Error_No_Labs] \<rparr>
      else
        (let start_minutes_val = time_to_minutes start_time_obj;
             end_minutes_val = time_to_minutes end_time_obj;
             tasks = shuffle rnd (tasks_to_schedule class_components);
             (s, unplaced) =
               place_tasks classrooms labs working_days start_minutes_val end_minutes_val tasks
                 (initial_state start_minutes_val, [])
         in if schedule_entries s = [] then
              \<lparr> schedule_df = [],
                messages = Warning_Placeholder # map Warning_Could_Not_Place unplaced
                           @ [Info_No_Entries] \<rparr>
            else
              \<lparr> schedule_df = sort_values working_days (schedule_entries s),
                messages = Warning_Placeholder # map Warning_Could_Not_Place unplaced \<rparr>))"

subsection \<open>Notions used in the properties\<close>

text \<open>
  A row \<open>r\<close> is made from the task \<open>t\<close>: it is the row the loop appends for \<open>t\<close>, with a
  room that the choice of rooms yields for \<open>t\<close> at some counter, and it ends within the
  daily window.
\<close>

definition made_from :: "string list \<Rightarrow> string list \<Rightarrow> int \<Rightarrow> task \<Rightarrow> row \<Rightarrow> bool" where
  "made_from cl lb em t r \<longleftrightarrow>
     r = make_row t (Day r) (Start_Minute r) (Room_Lab r) \<and>
     (\<exists>k. room_to_use cl lb t k = Some (Room_Lab r)) \<and> Room_Lab r \<noteq> [] \<and>
     Start_Minute r + task_duration_minutes t \<le> em"


text \<open>
  Two rows overlap when their half-open intervals of minutes meet; they clash when they
  also have the same room and the same day. A list of rows is room-exclusive when no row
  clashes with a later one, that is, since clashing is symmetric, when no two rows at
  different positions clash.
\<close>

definition overlaps :: "row \<Rightarrow> row \<Rightarrow> bool" where
  "overlaps r r' \<longleftrightarrow> Start_Minute r < End_Minute r' \<and> Start_Minute r' < End_Minute r"

definition clash :: "row \<Rightarrow> row \<Rightarrow> bool" where
  "clash r r' \<longleftrightarrow> Room_Lab r = Room_Lab r' \<and> Day r = Day r' \<and> overlaps r r'"

fun room_exclusive :: "row list \<Rightarrow> bool" where
  "room_exclusive [] = True"
| "room_exclusive (r # rs) = (list_all (\<lambda>r'. \<not> clash r r') rs \<and> room_exclusive rs)"

text \<open>
  The day that a pass through the loop over the days takes, and the check that makes the
  pass reset the cursor of this day: the task does not fit there. The two functions after
  it say whether some pass of the loop over the days, and of the loop over the tasks,
  resets a cursor; \<open>cursor_reset_occurs\<close> says so of the loop run on the shuffled tasks
  of a call.
\<close>

definition day_of_pass :: "string list \<Rightarrow> sched_state \<Rightarrow> string" where
  "day_of_pass working_days s =
     working_days ! (day_index_counter s (working_days ! 0) mod length working_days)"

definition overflows :: "string list \<Rightarrow> int \<Rightarrow> task \<Rightarrow> sched_state \<Rightarrow> bool" where
  "overflows working_days end_minutes_val t s \<longleftrightarrow>
     current_slot_time_per_day s (day_of_pass working_days s) + task_duration_minutes t
       > end_minutes_val"

fun try_days_resets ::
  "string list \<Rightarrow> string list \<Rightarrow> string list \<Rightarrow> int \<Rightarrow> int \<Rightarrow> task \<Rightarrow> nat \<Rightarrow> sched_state
     \<Rightarrow> bool" where
  "try_days_resets classrooms labs working_days start_minutes_val end_minutes_val t 0 s = False"
| "try_days_resets classrooms labs working_days start_minutes_val end_minutes_val t (Suc n) s =
     (overflows working_days end_minutes_val t s \<or>
      (case attempt classrooms labs working_days start_minutes_val end_minutes_val t s of
         (s', True) \<Rightarrow> False
       | (s', False) \<Rightarrow>
           try_days_resets classrooms labs working_days start_minutes_val end_minutes_val t n s'))"

fun place_tasks_resets ::
  "string list \<Rightarrow> string list \<Rightarrow> string list \<Rightarrow> int \<Rightarrow> int \<Rightarrow> task list \<Rightarrow> sched_state
     \<Rightarrow> bool" where
  "place_tasks_resets classrooms labs working_days start_minutes_val end_minutes_val [] s = False"
| "place_tasks_resets classrooms labs working_days start_minutes_val end_minutes_val (t # ts) s =
     (try_days_resets classrooms labs working_days start_minutes_val end_minutes_val t
        (length working_days) s \<or>
      place_tasks_resets classrooms labs working_days start_minutes_val end_minutes_val ts
        (fst (try_days classrooms labs working_days start_minutes_val end_minutes_val t
                (length working_days) s)))"

definition cursor_reset_occurs ::
  "(nat \<Rightarrow> nat) \<Rightarrow> component list \<Rightarrow> string list \<Rightarrow> string list \<Rightarrow> string list
     \<Rightarrow> time_obj option \<Rightarrow> time_obj option \<Rightarrow> bool" where
  "cursor_reset_occurs rnd class_components classrooms labs working_days
       start_time_obj end_time_obj =
     place_tasks_resets classrooms labs working_days
       (time_to_minutes start_time_obj) (time_to_minutes end_time_obj)
       (shuffle rnd (tasks_to_schedule class_components))
       (initial_state (time_to_minutes start_time_obj))"

text \<open>
  Two rows are apart when, if they are on the same day, one of them ends at least five
  minutes before the other starts; \<open>five_apart\<close> says so of every two rows of a list.
\<close>

definition apart :: "row \<Rightarrow> row \<Rightarrow> bool" where
  "apart r r' \<longleftrightarrow>
     (Day r = Day r' \<longrightarrow>
        End_Minute r + 5 \<le> Start_Minute r' \<or> End_Minute r' + 5 \<le> Start_Minute r)"

fun five_apart :: "row list \<Rightarrow> bool" where
  "five_apart [] = True"
| "five_apart (r # rs) = (list_all (apart r) rs \<and> five_apart rs)"

text \<open>
  The entries of a state are in sequence: every two of them are apart, and every entry
  ends at least five minutes before the cursor of its day.
\<close>

definition in_sequence :: "sched_state \<Rightarrow> bool" where
  "in_sequence s \<longleftrightarrow> five_apart (schedule_entries s) \<and>
     (\<forall>r \<in> set (schedule_entries s). End_Minute r + 5 \<le> current_slot_time_per_day s (Day r))"


text \<open>
  The sort key as the specification words it: the five columns, ties broken by the task
  identifier.
\<close>

definition spec_sort_key ::
  "string list \<Rightarrow> row \<Rightarrow> (string \<times> nat \<times> int \<times> string \<times> string) \<times> string" where
  "spec_sort_key working_days r = (sort_columns working_days r, Component_ID r)"

text \<open>
  Two random sources: \<open>first_index\<close> always draws 0, so that the shuffle moves the first
  task to the end; \<open>same_index\<close> draws \<open>i\<close> at index \<open>i\<close>, so that the shuffle leaves the
  order of the tasks as it is.
\<close>

definition first_index :: "nat \<Rightarrow> nat" where "first_index i = 0"
definition same_index :: "nat \<Rightarrow> nat" where "same_index i = i"

subsection \<open>Example inputs\<close>

definition lecture :: component where
  "lecture = \<lparr> comp_id = ''c1'', course_code = ''CSE101'', component_title = ''Programming'',
      semester = ''Fall'', sections = [''A''], class_type = ''Theory'', sessions_per_week = 1,
      duration_minutes = 50, assigned_room = None \<rparr>"

definition lab_session :: component where
  "lab_session = \<lparr> comp_id = ''c2'', course_code = ''CSE102'', component_title = ''Programming Lab'',
      semester = ''Fall'', sections = [''A''], class_type = ''Lab'', sessions_per_week = 1,
      duration_minutes = 50, assigned_room = Some ''L501'' \<rparr>"

definition tutorial :: component where
  "tutorial = \<lparr> comp_id = ''c3'', course_code = ''CSE103'', component_title = ''Tutorial'',
      semester = ''Fall'', sections = [''A''], class_type = ''Theory'', sessions_per_week = 1,
      duration_minutes = 50, assigned_room = None \<rparr>"

definition seminar :: component where
  "seminar = \<lparr> comp_id = ''c4'', course_code = ''CSE104'', component_title = ''Seminar'',
      semester = ''Fall'', sections = [''A''], class_type = ''Theory'', sessions_per_week = 3,
      duration_minutes = 50, assigned_room = None \<rparr>"

definition at_time :: "nat \<Rightarrow> nat \<Rightarrow> time_obj option" where
  "at_time h m = Some \<lparr> hour = h, minute = m \<rparr>"

section \<open>Properties\<close>

subsection \<open>The shuffle is a permutation\<close>

lemma length_swap [simp]: "length (swap i j xs) = length xs"
  by (simp add: swap_def)

lemma mset_swap_list: "i < length xs \<Longrightarrow> j < length xs \<Longrightarrow> mset (swap i j xs) = mset xs"
  by (simp add: swap_def mset_swap)

lemma mset_shuffle_from: "k < length xs \<Longrightarrow> mset (shuffle_from rnd k xs) = mset xs"
proof (induction k arbitrary: xs)
  case 0
  then show ?case by simp
next
  case (Suc k)
  have "rnd (Suc k) mod (Suc k + 1) < Suc k + 1"
    by simp
  with Suc.prems have j: "rnd (Suc k) mod (Suc k + 1) < length xs"
    by linarith
  have "mset (shuffle_from rnd k (swap (Suc k) (rnd (Suc k) mod (Suc k + 1)) xs))
          = mset (swap (Suc k) (rnd (Suc k) mod (Suc k + 1)) xs)"
    using Suc.prems by (intro Suc.IH) simp
  also have "\<dots> = mset xs"
    using Suc.prems j by (rule mset_swap_list)
  finally show ?case by simp
qed

lemma mset_shuffle: "mset (shuffle rnd xs) = mset xs"
proof (cases xs)
  case Nil
  then show ?thesis by (simp add: shuffle_def)
next
  case (Cons x ys)
  then show ?thesis by (simp add: shuffle_def mset_shuffle_from)
qed

lemma set_shuffle: "set (shuffle rnd xs) = set xs"
  using mset_shuffle [of rnd xs] by (metis set_mset_mset)

subsection \<open>The steps of the placement loop\<close>

lemma attempt_cases [consumes 1, case_names placed no_room overflow]:
  assumes "attempt cl lb wd sm em t s = (s', b)"
  obtains
    (placed) d k room where "b"
      "room_to_use cl lb t k = Some room" "room \<noteq> []"
      "current_slot_time_per_day s d + task_duration_minutes t \<le> em"
      "schedule_entries s' = schedule_entries s @ [make_row t d (current_slot_time_per_day s d) room]"
      "current_slot_time_per_day s' =
         (current_slot_time_per_day s)(d := current_slot_time_per_day s d + task_duration_minutes t + 5)"
  | (no_room) "\<not> b" "schedule_entries s' = schedule_entries s"
      "current_slot_time_per_day s' = current_slot_time_per_day s"
  | (overflow) d where "\<not> b" "schedule_entries s' = schedule_entries s"
      "em < current_slot_time_per_day s d + task_duration_minutes t"
      "current_slot_time_per_day s' = (current_slot_time_per_day s)(d := sm)"
proof -
  define d where "d = wd ! (day_index_counter s (wd ! 0) mod length wd)"
  define k where "k = ((day_index_counter s)(wd ! 0 := day_index_counter s (wd ! 0) + 1)) d"
  show thesis
  proof (cases "current_slot_time_per_day s d + task_duration_minutes t \<le> em")
    case fits: True
    show ?thesis
    proof (cases "truthy (room_to_use cl lb t k)")
      case True
      then obtain room where "room_to_use cl lb t k = Some room" "room \<noteq> []"
        by (auto simp: truthy_def)
      with fits assms show ?thesis
        by (intro placed [of k room d]) (auto simp: attempt_def Let_def truthy_def d_def k_def)
    next
      case False
      with fits assms show ?thesis
        by (intro no_room) (auto simp: attempt_def Let_def d_def k_def)
    qed
  next
    case False
    with assms show ?thesis
      by (intro overflow [of d]) (auto simp: attempt_def Let_def d_def)
  qed
qed

lemma try_days_invariant:
  assumes "\<And>s s' b. I s \<Longrightarrow> attempt cl lb wd sm em t s = (s', b) \<Longrightarrow> I s'"
    and "I s"
  shows "I (fst (try_days cl lb wd sm em t n s))"
  using assms(2)
proof (induction n arbitrary: s)
  case 0
  then show ?case by simp
next
  case (Suc n)
  obtain s' b where a: "attempt cl lb wd sm em t s = (s', b)"
    by (cases "attempt cl lb wd sm em t s")
  with Suc.prems have "I s'" using assms(1) by blast
  with a Suc.IH show ?case by (cases b) simp_all
qed

lemma place_tasks_invariant:
  assumes "\<And>t s s' b. t \<in> set ts \<Longrightarrow> I s \<Longrightarrow> attempt cl lb wd sm em t s = (s', b) \<Longrightarrow> I s'"
    and "I s"
  shows "I (fst (place_tasks cl lb wd sm em ts (s, u)))"
  using assms
proof (induction ts arbitrary: s u)
  case Nil
  then show ?case by simp
next
  case (Cons t ts)
  have "I (fst (try_days cl lb wd sm em t (length wd) s))"
    by (rule try_days_invariant [where I = I]) (use Cons.prems in auto)
  moreover obtain s' a where td: "try_days cl lb wd sm em t (length wd) s = (s', a)"
    by (cases "try_days cl lb wd sm em t (length wd) s")
  ultimately have "I s'" by simp
  then have "I (fst (place_tasks cl lb wd sm em ts (s', if a then u else u @ [t])))"
    by (rule Cons.IH [rotated]) (use Cons.prems in auto)
  with td show ?case by simp
qed

subsection \<open>Invariants of the placement loop\<close>

lemma try_days_rule:
  assumes "I s"
    and "\<And>s s'. I s \<Longrightarrow> attempt cl lb wd sm em t s = (s', False) \<Longrightarrow> I s'"
    and "\<And>s s'. I s \<Longrightarrow> attempt cl lb wd sm em t s = (s', True) \<Longrightarrow> Q (s', True)"
    and "\<And>s. I s \<Longrightarrow> Q (s, False)"
  shows "Q (try_days cl lb wd sm em t n s)"
  using assms(1)
proof (induction n arbitrary: s)
  case 0
  then show ?case by (simp add: assms(4))
next
  case (Suc n)
  obtain s' b where a: "attempt cl lb wd sm em t s = (s', b)"
    by (cases "attempt cl lb wd sm em t s")
  show ?case
  proof (cases b)
    case True
    with a Suc.prems assms(3) show ?thesis by simp
  next
    case False
    with a have "attempt cl lb wd sm em t s = (s', False)" by simp
    with Suc.prems have "I s'" by (rule assms(2))
    with a False Suc.IH show ?thesis by simp
  qed
qed

lemma schedule_df_cases:
  "schedule_df (generate_schedule_from_components rnd cc cl lb wd st en) = [] \<or>
   schedule_df (generate_schedule_from_components rnd cc cl lb wd st en) =
     sort_values wd (schedule_entries (fst (place_tasks cl lb wd (time_to_minutes st) (time_to_minutes en)
        (shuffle rnd (tasks_to_schedule cc)) (initial_state (time_to_minutes st), []))))"
  by (simp add: generate_schedule_from_components_def Let_def split: prod.splits)

lemma set_sort_values [simp]: "set (sort_values wd rows) = set rows"
  by (simp add: sort_values_def)

lemma mset_sort_values [simp]: "mset (sort_values wd rows) = mset rows"
  by (simp add: sort_values_def)

lemma schedule_df_invariant:
  assumes r: "r \<in> set (schedule_df (generate_schedule_from_components rnd cc cl lb wd st en))"
    and init: "I (initial_state (time_to_minutes st))"
    and step: "\<And>t s s' b. t \<in> set (tasks_to_schedule cc) \<Longrightarrow> I s \<Longrightarrow>
             attempt cl lb wd (time_to_minutes st) (time_to_minutes en) t s = (s', b) \<Longrightarrow> I s'"
  shows "\<exists>s. I s \<and> r \<in> set (schedule_entries s)"
proof -
  let ?s = "fst (place_tasks cl lb wd (time_to_minutes st) (time_to_minutes en)
        (shuffle rnd (tasks_to_schedule cc)) (initial_state (time_to_minutes st), []))"
  have "I ?s"
    by (rule place_tasks_invariant [where I = I]) (use init step in \<open>auto simp: set_shuffle\<close>)
  moreover have "r \<in> set (schedule_entries ?s)"
    using r schedule_df_cases [of rnd cc cl lb wd st en] by auto
  ultimately show ?thesis by blast
qed

lemma made_from_make_row:
  "room_to_use cl lb t k = Some room \<Longrightarrow> room \<noteq> [] \<Longrightarrow> start + task_duration_minutes t \<le> em \<Longrightarrow>
   made_from cl lb em t (make_row t d start room)"
  by (auto simp: made_from_def make_row_def)

lemma rows_made_from:
  assumes "r \<in> set (schedule_df (generate_schedule_from_components rnd cc cl lb wd st en))"
  shows "\<exists>t \<in> set (tasks_to_schedule cc). made_from cl lb (time_to_minutes en) t r"
proof -
  let ?I = "\<lambda>s::sched_state. \<forall>r \<in> set (schedule_entries s). \<exists>t \<in> set (tasks_to_schedule cc). made_from cl lb (time_to_minutes en) t r"
  have "\<exists>s. ?I s \<and> r \<in> set (schedule_entries s)"
  proof (rule schedule_df_invariant [where I = ?I, OF assms])
    show "?I (initial_state (time_to_minutes st))"
      by (simp add: initial_state_def)
  next
    fix t s s' b
    assume t: "t \<in> set (tasks_to_schedule cc)" and I: "?I s"
      and a: "attempt cl lb wd (time_to_minutes st) (time_to_minutes en) t s = (s', b)"
    from a show "?I s'"
    proof (cases rule: attempt_cases)
      case (placed d k room)
      with t I show ?thesis
        by (auto intro: made_from_make_row)
    next
      case no_room
      with I show ?thesis by simp
    next
      case (overflow d)
      with I show ?thesis by simp
    qed
  qed
  then show ?thesis by blast
qed


lemma task_of_component:
  assumes "t \<in> set (tasks_to_schedule cc)"
  obtains c sec n where "c \<in> set cc" "sec \<in> set (sections c)" "t = make_task c sec n"
  using assms by (auto simp: tasks_to_schedule_def)

lemma room_to_use_eligible:
  assumes "room_to_use cl lb t k = Some room"
  shows "(task_class_type t = ''Theory'' \<longrightarrow> room \<in> set cl) \<and>
         (task_class_type t = ''Lab'' \<and> task_assigned_room t = Some ''Any Available Lab'' \<longrightarrow> room \<in> set lb) \<and>
         (\<forall>n. task_class_type t = ''Lab'' \<and> task_assigned_room t = Some n \<and> n \<noteq> [] \<and>
              n \<noteq> ''Any Available Lab'' \<longrightarrow> room = n)"
  using assms by (auto simp: room_to_use_def truthy_def split: if_splits)

subsection \<open>Window containment\<close>

lemma task_duration_nonneg:
  assumes "\<forall>c \<in> set cc. 0 \<le> duration_minutes c" and "t \<in> set (tasks_to_schedule cc)"
  shows "0 \<le> task_duration_minutes t"
  using assms by (auto simp: tasks_to_schedule_def make_task_def)

text \<open>
  Claim C3. When no component has a negative duration, every row of the returned schedule
  starts at or after the start of the daily window, and its start plus the duration of
  the task it was made from is at most the end of the window.
\<close>

theorem window_containment:
  assumes dur: "\<forall>c \<in> set class_components. 0 \<le> duration_minutes c"
    and r: "r \<in> set (schedule_df (generate_schedule_from_components rnd class_components
                 classrooms labs working_days start_time_obj end_time_obj))"
  shows "time_to_minutes start_time_obj \<le> Start_Minute r \<and>
         End_Minute r \<le> time_to_minutes end_time_obj \<and>
         (\<exists>t \<in> set (tasks_to_schedule class_components).
            r = make_row t (Day r) (Start_Minute r) (Room_Lab r) \<and>
            Start_Minute r + task_duration_minutes t \<le> time_to_minutes end_time_obj)"
proof -
  let ?sm = "time_to_minutes start_time_obj"
  let ?I = "\<lambda>s::sched_state. (\<forall>d. ?sm \<le> current_slot_time_per_day s d) \<and>
              (\<forall>r \<in> set (schedule_entries s). ?sm \<le> Start_Minute r)"
  have "\<exists>s. ?I s \<and> r \<in> set (schedule_entries s)"
  proof (rule schedule_df_invariant [where I = ?I, OF r])
    show "?I (initial_state ?sm)"
      by (simp add: initial_state_def)
  next
    fix t s s' b
    assume t: "t \<in> set (tasks_to_schedule class_components)" and I: "?I s"
      and a: "attempt classrooms labs working_days ?sm (time_to_minutes end_time_obj) t s = (s', b)"
    from dur t have d0: "0 \<le> task_duration_minutes t"
      by (rule task_duration_nonneg)
    from a show "?I s'"
    proof (cases rule: attempt_cases)
      case (placed d k room)
      have lo: "?sm \<le> current_slot_time_per_day s d" using I by blast
      with d0 have "?sm \<le> current_slot_time_per_day s d + task_duration_minutes t + 5"
        by linarith
      with placed I have "\<forall>d'. ?sm \<le> current_slot_time_per_day s' d'"
        by simp
      moreover from placed I lo have "\<forall>r \<in> set (schedule_entries s'). ?sm \<le> Start_Minute r"
        by (auto simp: make_row_def)
      ultimately show ?thesis by blast
    next
      case no_room
      with I show ?thesis by simp
    next
      case (overflow d)
      with I show ?thesis by simp
    qed
  qed
  then have lo: "?sm \<le> Start_Minute r" by blast
  from r obtain t where t: "t \<in> set (tasks_to_schedule class_components)"
    and m: "made_from classrooms labs (time_to_minutes end_time_obj) t r"
    using rows_made_from by blast
  from m have row: "r = make_row t (Day r) (Start_Minute r) (Room_Lab r)"
    and hi: "Start_Minute r + task_duration_minutes t \<le> time_to_minutes end_time_obj"
    by (simp_all add: made_from_def)
  from row have "End_Minute r = Start_Minute r + task_duration_minutes t"
    by (metis row.select_convs(4) make_row_def)
  with lo hi row t show ?thesis by auto
qed

theorem window_containment_witness:
  "make_row (make_task lecture ''A'' 0) ''Mon'' 480 ''C101''
     \<in> set (schedule_df (generate_schedule_from_components first_index [lecture]
              [''C101''] [] [''Mon''] (at_time 8 0) (at_time 17 0))) \<and>
   time_to_minutes (at_time 8 0)
     \<le> Start_Minute (make_row (make_task lecture ''A'' 0) ''Mon'' 480 ''C101'') \<and>
   End_Minute (make_row (make_task lecture ''A'' 0) ''Mon'' 480 ''C101'')
     \<le> time_to_minutes (at_time 17 0) \<and>
   (\<exists>t \<in> set (tasks_to_schedule [lecture]).
      make_row (make_task lecture ''A'' 0) ''Mon'' 480 ''C101''
        = make_row t (Day (make_row (make_task lecture ''A'' 0) ''Mon'' 480 ''C101''))
            (Start_Minute (make_row (make_task lecture ''A'' 0) ''Mon'' 480 ''C101''))
            (Room_Lab (make_row (make_task lecture ''A'' 0) ''Mon'' 480 ''C101'')) \<and>
      Start_Minute (make_row (make_task lecture ''A'' 0) ''Mon'' 480 ''C101'')
        + task_duration_minutes t \<le> time_to_minutes (at_time 17 0))"
proof -
  have dur: "\<forall>c \<in> set [lecture]. 0 \<le> duration_minutes c"
    by (simp add: lecture_def)
  have r: "make_row (make_task lecture ''A'' 0) ''Mon'' 480 ''C101''
     \<in> set (schedule_df (generate_schedule_from_components first_index [lecture]
              [''C101''] [] [''Mon''] (at_time 8 0) (at_time 17 0)))"
    by code_simp
  from window_containment [OF dur r] r show ?thesis
    by blast
qed

subsection \<open>Eligibility of the assigned room\<close>

text \<open>
  Claim C7. When every lab that a lab component names is in the lab pool, every row of
  the returned schedule was made from a task whose requirement its room meets: a
  classroom for a theory task, a lab of the pool for a lab task that asks for any lab,
  and the named lab for a lab task that names one.
\<close>

theorem eligibility:
  assumes named: "\<forall>c \<in> set class_components. \<forall>n. class_type c = ''Lab'' \<and> assigned_room c = Some n \<and>
             n \<noteq> [] \<and> n \<noteq> ''Any Available Lab'' \<longrightarrow> n \<in> set labs"
    and r: "r \<in> set (schedule_df (generate_schedule_from_components rnd class_components
                 classrooms labs working_days start_time_obj end_time_obj))"
  shows "\<exists>t \<in> set (tasks_to_schedule class_components).
           r = make_row t (Day r) (Start_Minute r) (Room_Lab r) \<and>
           (task_class_type t = ''Theory'' \<longrightarrow> Room_Lab r \<in> set classrooms) \<and>
           (task_class_type t = ''Lab'' \<and> task_assigned_room t = Some ''Any Available Lab''
              \<longrightarrow> Room_Lab r \<in> set labs) \<and>
           (\<forall>n. task_class_type t = ''Lab'' \<and> task_assigned_room t = Some n \<and> n \<noteq> [] \<and>
              n \<noteq> ''Any Available Lab'' \<longrightarrow> Room_Lab r = n \<and> n \<in> set labs)"
proof -
  from r obtain t where t: "t \<in> set (tasks_to_schedule class_components)"
    and m: "made_from classrooms labs (time_to_minutes end_time_obj) t r"
    using rows_made_from by blast
  from m obtain k where k: "room_to_use classrooms labs t k = Some (Room_Lab r)"
    and row: "r = make_row t (Day r) (Start_Minute r) (Room_Lab r)"
    by (auto simp: made_from_def)
  from t obtain c sec n where c: "c \<in> set class_components" and tc: "t = make_task c sec n"
    by (rule task_of_component)
  have "\<forall>n. task_class_type t = ''Lab'' \<and> task_assigned_room t = Some n \<and> n \<noteq> [] \<and>
              n \<noteq> ''Any Available Lab'' \<longrightarrow> n \<in> set labs"
    using named c tc by (simp add: make_task_def)
  with room_to_use_eligible [OF k] row t show ?thesis
    by blast
qed


theorem eligibility_witness:
  "make_row (make_task lab_session ''A'' 0) ''Mon'' 480 ''L501''
     \<in> set (schedule_df (generate_schedule_from_components first_index [lab_session]
              [] [''L501'', ''L502''] [''Mon''] (at_time 8 0) (at_time 17 0))) \<and>
   (\<exists>t \<in> set (tasks_to_schedule [lab_session]).
      make_row (make_task lab_session ''A'' 0) ''Mon'' 480 ''L501'' = make_row t ''Mon'' 480 ''L501'' \<and>
      (task_class_type t = ''Theory'' \<longrightarrow> ''L501'' \<in> set []) \<and>
      (task_class_type t = ''Lab'' \<and> task_assigned_room t = Some ''Any Available Lab''
         \<longrightarrow> ''L501'' \<in> set [''L501'', ''L502'']) \<and>
      (\<forall>n. task_class_type t = ''Lab'' \<and> task_assigned_room t = Some n \<and> n \<noteq> [] \<and>
         n \<noteq> ''Any Available Lab'' \<longrightarrow> ''L501'' = n \<and> n \<in> set [''L501'', ''L502'']))"
proof -
  let ?r = "make_row (make_task lab_session ''A'' 0) ''Mon'' 480 ''L501''"
  have named: "\<forall>c \<in> set [lab_session]. \<forall>n. class_type c = ''Lab'' \<and> assigned_room c = Some n \<and>
             n \<noteq> [] \<and> n \<noteq> ''Any Available Lab'' \<longrightarrow> n \<in> set [''L501'', ''L502'']"
    by (simp add: lab_session_def)
  have r: "?r \<in> set (schedule_df (generate_schedule_from_components first_index [lab_session]
              [] [''L501'', ''L502''] [''Mon''] (at_time 8 0) (at_time 17 0)))"
    by code_simp
  have sel: "Day ?r = ''Mon''" "Start_Minute ?r = 480" "Room_Lab ?r = ''L501''"
    by (simp_all add: make_row_def)
  from eligibility [OF named r] r show ?thesis
    unfolding sel by simp
qed

subsection \<open>Errors reported before the search\<close>

text \<open>
  Claim C5. When there are class components and either no working day is configured, or
  a theory component exists and the classroom pool is empty, or a lab component asks for
  any available lab and the lab pool is empty, the call shows the placeholder warning and
  one error and returns an empty schedule; no task is tried, since the only messages are
  these two.
\<close>

theorem input_error_short_circuit:
  assumes "class_components \<noteq> []"
    and "working_days = [] \<or>
         ((\<exists>c \<in> set class_components. class_type c = ''Theory'') \<and> classrooms = []) \<or>
         ((\<exists>c \<in> set class_components. class_type c = ''Lab'' \<and>
              assigned_room c = Some ''Any Available Lab'') \<and> labs = [])"
  shows "schedule_df (generate_schedule_from_components rnd class_components classrooms labs
            working_days start_time_obj end_time_obj) = [] \<and>
         messages (generate_schedule_from_components rnd class_components classrooms labs
            working_days start_time_obj end_time_obj) =
           [Warning_Placeholder,
            if working_days = [] then Error_Missing_Components_Or_Days
            else if (\<exists>c \<in> set class_components. class_type c = ''Theory'') \<and> classrooms = []
              then Error_No_Classrooms
            else Error_No_Labs]"
  using assms
  by (auto simp: generate_schedule_from_components_def needs_theory_room_def
        needs_lab_room_any_def list_ex_iff)

theorem input_error_short_circuit_witness:
  "[lecture] \<noteq> [] \<and>
   schedule_df (generate_schedule_from_components first_index [lecture] [] [] [''Mon'']
      (at_time 8 0) (at_time 17 0)) = [] \<and>
   messages (generate_schedule_from_components first_index [lecture] [] [] [''Mon'']
      (at_time 8 0) (at_time 17 0)) = [Warning_Placeholder, Error_No_Classrooms]"
proof -
  have ne: "[lecture] \<noteq> []" by simp
  have cond: "[''Mon''] = [] \<or>
         ((\<exists>c \<in> set [lecture]. class_type c = ''Theory'') \<and> ([] :: string list) = []) \<or>
         ((\<exists>c \<in> set [lecture]. class_type c = ''Lab'' \<and>
              assigned_room c = Some ''Any Available Lab'') \<and> ([] :: string list) = [])"
    by (simp add: lecture_def)
  have th: "\<exists>c \<in> set [lecture]. class_type c = ''Theory''"
    by (simp add: lecture_def)
  from input_error_short_circuit [OF ne cond, of first_index "at_time 8 0" "at_time 17 0"] th
  show ?thesis by simp
qed

subsection \<open>A lab named by a component is not looked up in the lab pool\<close>

text \<open>
  Claim C6 says that a lab component naming a room outside the lab pool yields an error
  before the search and no row. The code does not check the name: with the lab pool
  \<open>[L101]\<close>, the component \<open>lab_session\<close>, which names \<open>L501\<close>, yields no error and one row,
  in room \<open>L501\<close>.
\<close>

theorem specific_room_counterexample:
  "''L501'' \<notin> set [''L101''] \<and>
   messages (generate_schedule_from_components first_index [lab_session] [] [''L101''] [''Mon'']
      (at_time 8 0) (at_time 17 0)) = [Warning_Placeholder] \<and>
   schedule_df (generate_schedule_from_components first_index [lab_session] [] [''L101''] [''Mon'']
      (at_time 8 0) (at_time 17 0)) = [make_row (make_task lab_session ''A'' 0) ''Mon'' 480 ''L501'']"
  by code_simp

lemma messages_no_error:
  assumes "class_components \<noteq> []" "working_days \<noteq> []"
    and "(\<exists>c \<in> set class_components. class_type c = ''Theory'') \<longrightarrow> classrooms \<noteq> []"
    and "(\<exists>c \<in> set class_components. class_type c = ''Lab'' \<and>
            assigned_room c = Some ''Any Available Lab'') \<longrightarrow> labs \<noteq> []"
  shows "Error_Missing_Components_Or_Days \<notin> set (messages (generate_schedule_from_components rnd
            class_components classrooms labs working_days start_time_obj end_time_obj)) \<and>
         Error_No_Classrooms \<notin> set (messages (generate_schedule_from_components rnd
            class_components classrooms labs working_days start_time_obj end_time_obj)) \<and>
         Error_No_Labs \<notin> set (messages (generate_schedule_from_components rnd
            class_components classrooms labs working_days start_time_obj end_time_obj))"
  using assms
  by (auto simp: generate_schedule_from_components_def needs_theory_room_def
        needs_lab_room_any_def list_ex_iff Let_def split: prod.splits)

text \<open>
  Claim C6, as amended. When none of the three checks of claim C5 fails, no error is shown,
  whatever rooms the lab components name; and every row of the returned schedule was made
  from a task such that, if the task is a lab task naming a room, the row has exactly this
  room, whether the room is in the lab pool or not.
\<close>

theorem specific_room_taken_as_named:
  assumes ok: "class_components \<noteq> []" "working_days \<noteq> []"
      "(\<exists>c \<in> set class_components. class_type c = ''Theory'') \<longrightarrow> classrooms \<noteq> []"
      "(\<exists>c \<in> set class_components. class_type c = ''Lab'' \<and>
            assigned_room c = Some ''Any Available Lab'') \<longrightarrow> labs \<noteq> []"
  shows "Error_Missing_Components_Or_Days \<notin> set (messages (generate_schedule_from_components rnd
            class_components classrooms labs working_days start_time_obj end_time_obj)) \<and>
         Error_No_Classrooms \<notin> set (messages (generate_schedule_from_components rnd
            class_components classrooms labs working_days start_time_obj end_time_obj)) \<and>
         Error_No_Labs \<notin> set (messages (generate_schedule_from_components rnd
            class_components classrooms labs working_days start_time_obj end_time_obj)) \<and>
         (\<forall>r \<in> set (schedule_df (generate_schedule_from_components rnd
                  class_components classrooms labs working_days start_time_obj end_time_obj)).
            \<exists>t \<in> set (tasks_to_schedule class_components).
              r = make_row t (Day r) (Start_Minute r) (Room_Lab r) \<and>
              (\<forall>n. task_class_type t = ''Lab'' \<and> task_assigned_room t = Some n \<and> n \<noteq> [] \<and>
                 n \<noteq> ''Any Available Lab'' \<longrightarrow> Room_Lab r = n))"
proof -
  have "\<exists>t \<in> set (tasks_to_schedule class_components).
              r = make_row t (Day r) (Start_Minute r) (Room_Lab r) \<and>
              (\<forall>n. task_class_type t = ''Lab'' \<and> task_assigned_room t = Some n \<and> n \<noteq> [] \<and>
                 n \<noteq> ''Any Available Lab'' \<longrightarrow> Room_Lab r = n)"
    if r: "r \<in> set (schedule_df (generate_schedule_from_components rnd
                  class_components classrooms labs working_days start_time_obj end_time_obj))" for r
  proof -
    from r obtain t where t: "t \<in> set (tasks_to_schedule class_components)"
      and m: "made_from classrooms labs (time_to_minutes end_time_obj) t r"
      using rows_made_from by blast
    from m obtain k where k: "room_to_use classrooms labs t k = Some (Room_Lab r)"
      and row: "r = make_row t (Day r) (Start_Minute r) (Room_Lab r)"
      by (auto simp: made_from_def)
    from room_to_use_eligible [OF k] row t show ?thesis by blast
  qed
  with messages_no_error [OF ok] show ?thesis by blast
qed

theorem specific_room_taken_as_named_witness:
  "''L501'' \<notin> set [''L101''] \<and>
   Error_Missing_Components_Or_Days \<notin> set (messages (generate_schedule_from_components first_index
      [lab_session] [] [''L101''] [''Mon''] (at_time 8 0) (at_time 17 0))) \<and>
   Error_No_Classrooms \<notin> set (messages (generate_schedule_from_components first_index
      [lab_session] [] [''L101''] [''Mon''] (at_time 8 0) (at_time 17 0))) \<and>
   Error_No_Labs \<notin> set (messages (generate_schedule_from_components first_index
      [lab_session] [] [''L101''] [''Mon''] (at_time 8 0) (at_time 17 0))) \<and>
   make_row (make_task lab_session ''A'' 0) ''Mon'' 480 ''L501''
     \<in> set (schedule_df (generate_schedule_from_components first_index
          [lab_session] [] [''L101''] [''Mon''] (at_time 8 0) (at_time 17 0))) \<and>
   (\<exists>t \<in> set (tasks_to_schedule [lab_session]).
      make_row (make_task lab_session ''A'' 0) ''Mon'' 480 ''L501'' = make_row t ''Mon'' 480 ''L501'' \<and>
      (\<forall>n. task_class_type t = ''Lab'' \<and> task_assigned_room t = Some n \<and> n \<noteq> [] \<and>
         n \<noteq> ''Any Available Lab'' \<longrightarrow> ''L501'' = n))"
proof -
  let ?r = "make_row (make_task lab_session ''A'' 0) ''Mon'' 480 ''L501''"
  have ok: "[lab_session] \<noteq> []" "[''Mon''] \<noteq> []"
      "(\<exists>c \<in> set [lab_session]. class_type c = ''Theory'') \<longrightarrow> ([] :: string list) \<noteq> []"
      "(\<exists>c \<in> set [lab_session]. class_type c = ''Lab'' \<and>
            assigned_room c = Some ''Any Available Lab'') \<longrightarrow> [''L101''] \<noteq> []"
    by (simp_all add: lab_session_def)
  have r: "?r \<in> set (schedule_df (generate_schedule_from_components first_index
          [lab_session] [] [''L101''] [''Mon''] (at_time 8 0) (at_time 17 0)))"
    by code_simp
  have sel: "Day ?r = ''Mon''" "Start_Minute ?r = 480" "Room_Lab ?r = ''L501''"
    by (simp_all add: make_row_def)
  from specific_room_taken_as_named [OF ok, of first_index "at_time 8 0" "at_time 17 0"] r
  have "\<exists>t \<in> set (tasks_to_schedule [lab_session]).
      ?r = make_row t (Day ?r) (Start_Minute ?r) (Room_Lab ?r) \<and>
      (\<forall>n. task_class_type t = ''Lab'' \<and> task_assigned_room t = Some n \<and> n \<noteq> [] \<and>
         n \<noteq> ''Any Available Lab'' \<longrightarrow> Room_Lab ?r = n)"
    by blast
  moreover have "''L501'' \<notin> set [''L101'']" by simp
  ultimately show ?thesis
    using specific_room_taken_as_named [OF ok, of first_index "at_time 8 0" "at_time 17 0"] r
    unfolding sel by blast
qed

subsection \<open>Placed and unplaced tasks\<close>

lemma try_days_ids:
  "map Component_ID (schedule_entries (fst (try_days cl lb wd sm em t n s))) =
     map Component_ID (schedule_entries s)
       @ (if snd (try_days cl lb wd sm em t n s) then [task_id t] else [])"
proof -
  let ?I = "\<lambda>s1::sched_state. schedule_entries s1 = schedule_entries s"
  let ?Q = "\<lambda>(s', b). map Component_ID (schedule_entries s') =
               map Component_ID (schedule_entries s) @ (if b then [task_id t] else [])"
  have "?Q (try_days cl lb wd sm em t n s)"
  proof (rule try_days_rule [where I = ?I and Q = ?Q])
    show "?I s" by simp
  next
    fix s1 s'
    assume "?I s1" and a: "attempt cl lb wd sm em t s1 = (s', False)"
    from a this(1) show "?I s'"
      by (cases rule: attempt_cases) simp_all
  next
    fix s1 s'
    assume "?I s1" and a: "attempt cl lb wd sm em t s1 = (s', True)"
    from a this(1) show "?Q (s', True)"
      by (cases rule: attempt_cases) (simp_all add: make_row_def)
  next
    fix s1 assume "?I s1"
    then show "?Q (s1, False)" by simp
  qed
  then show ?thesis by (simp add: case_prod_beta)
qed

lemma place_tasks_ids:
  "mset (map Component_ID (schedule_entries (fst (place_tasks cl lb wd sm em ts (s, u)))))
     + mset (map task_id (snd (place_tasks cl lb wd sm em ts (s, u))))
   = mset (map Component_ID (schedule_entries s)) + mset (map task_id u) + mset (map task_id ts)"
proof (induction ts arbitrary: s u)
  case Nil
  then show ?case by simp
next
  case (Cons t ts)
  obtain s' a where td: "try_days cl lb wd sm em t (length wd) s = (s', a)"
    by (cases "try_days cl lb wd sm em t (length wd) s")
  with try_days_ids [of cl lb wd sm em t "length wd" s]
  have ids: "map Component_ID (schedule_entries s') =
      map Component_ID (schedule_entries s) @ (if a then [task_id t] else [])"
    by simp
  show ?case
    using td Cons.IH [of s' "if a then u else u @ [t]"] ids by (cases a) simp_all
qed






lemma placed_and_unplaced_ids:
  "mset (map Component_ID (schedule_entries (fst (place_tasks cl lb wd sm em (shuffle rnd ts)
       (initial_state sm, [])))))
   + mset (map task_id (snd (place_tasks cl lb wd sm em (shuffle rnd ts) (initial_state sm, []))))
   = mset (map task_id ts)"
proof -
  have "mset (map task_id (shuffle rnd ts)) = mset (map task_id ts)"
    by (simp add: mset_shuffle)
  with place_tasks_ids [of cl lb wd sm em "shuffle rnd ts" "initial_state sm" "[]"]
  show ?thesis by (simp add: initial_state_def)
qed

lemma row_ids_subset_task_ids:
  "mset (map Component_ID (schedule_df (generate_schedule_from_components rnd class_components
      classrooms labs working_days start_time_obj end_time_obj)))
   \<subseteq># mset (map task_id (tasks_to_schedule class_components))"
proof -
  let ?df = "schedule_df (generate_schedule_from_components rnd class_components
      classrooms labs working_days start_time_obj end_time_obj)"
  let ?p = "place_tasks classrooms labs working_days (time_to_minutes start_time_obj)
      (time_to_minutes end_time_obj) (shuffle rnd (tasks_to_schedule class_components))
      (initial_state (time_to_minutes start_time_obj), [])"
  from schedule_df_cases [of rnd class_components classrooms labs working_days
      start_time_obj end_time_obj]
  consider "?df = []" | "?df = sort_values working_days (schedule_entries (fst ?p))"
    by blast
  then show ?thesis
  proof cases
    case 1
    then show ?thesis by simp
  next
    case 2
    then have "mset (map Component_ID ?df) = mset (map Component_ID (schedule_entries (fst ?p)))"
      by simp
    also have "\<dots> \<subseteq># mset (map task_id (tasks_to_schedule class_components))"
      using placed_and_unplaced_ids [of classrooms labs working_days
          "time_to_minutes start_time_obj" "time_to_minutes end_time_obj" rnd
          "tasks_to_schedule class_components"]
      by (metis mset_subset_eq_add_left)
    finally show ?thesis .
  qed
qed














subsection \<open>At most one row for a task\<close>

lemma distinct_mset_subset:
  assumes "mset xs \<subseteq># mset ys" and "distinct ys"
  shows "distinct xs"
proof -
  have le: "count (mset xs) a \<le> 1" for a
  proof -
    have "count (mset xs) a \<le> count (mset ys) a"
      using assms(1) by (rule mset_subset_eq_count)
    also have "\<dots> \<le> 1"
      using assms(2) by (simp add: distinct_count_atmost_1)
    finally show ?thesis .
  qed
  have "count (mset xs) a = (if a \<in> set xs then 1 else 0)" for a
  proof (cases "a \<in> set xs")
    case True
    then have "0 < count (mset xs) a" by simp
    with le [of a] have "count (mset xs) a = 1" by linarith
    with True show ?thesis by (simp only: if_True)
  next
    case False
    then show ?thesis by (simp add: count_eq_zero_iff)
  qed
  then show ?thesis
    by (simp add: distinct_count_atmost_1)
qed

text \<open>
  Claim C10. Every task identifier occurs among the rows of the returned schedule at most
  as often as among the expanded tasks; so when the task identifiers are distinct, no two
  rows have the same identifier.
\<close>

theorem at_most_one_row_per_task:
  "mset (map Component_ID (schedule_df (generate_schedule_from_components rnd class_components
      classrooms labs working_days start_time_obj end_time_obj)))
     \<subseteq># mset (map task_id (tasks_to_schedule class_components)) \<and>
   (distinct (map task_id (tasks_to_schedule class_components)) \<longrightarrow>
    distinct (map Component_ID (schedule_df (generate_schedule_from_components rnd
      class_components classrooms labs working_days start_time_obj end_time_obj))))"
  using row_ids_subset_task_ids [of rnd class_components classrooms labs working_days
      start_time_obj end_time_obj]
  by (blast intro: distinct_mset_subset)

theorem at_most_one_row_per_task_witness:
  "distinct (map task_id (tasks_to_schedule [seminar])) \<and>
   map Component_ID (schedule_df (generate_schedule_from_components first_index [seminar]
      [''C101''] [] [''Mon''] (at_time 8 0) (at_time 9 0))) = [''c4_A_1'', ''c4_A_0''] \<and>
   mset (map Component_ID (schedule_df (generate_schedule_from_components first_index [seminar]
      [''C101''] [] [''Mon''] (at_time 8 0) (at_time 9 0))))
     \<subseteq># mset (map task_id (tasks_to_schedule [seminar])) \<and>
   distinct (map Component_ID (schedule_df (generate_schedule_from_components first_index
      [seminar] [''C101''] [] [''Mon''] (at_time 8 0) (at_time 9 0))))"
proof -
  have d: "distinct (map task_id (tasks_to_schedule [seminar]))"
    by code_simp
  have ids: "map Component_ID (schedule_df (generate_schedule_from_components first_index
      [seminar] [''C101''] [] [''Mon''] (at_time 8 0) (at_time 9 0))) = [''c4_A_1'', ''c4_A_0'']"
    by code_simp
  from at_most_one_row_per_task [of first_index "[seminar]" "[''C101'']" "[]" "[''Mon'']"
      "at_time 8 0" "at_time 9 0"] d ids
  show ?thesis by blast
qed


subsection \<open>The order of the rows\<close>

text \<open>
  Claim C9 says that the rows are sorted by the five columns with ties broken by the task
  identifier. The code sorts by the five columns only: for the component \<open>seminar\<close> with
  one classroom, one day and a window of one hour, the two rows have the same five columns
  and stand in the order in which they were placed, the task \<open>c4_A_1\<close> before the task
  \<open>c4_A_0\<close>.
\<close>

theorem result_ordering_counterexample:
  "map Component_ID (schedule_df (generate_schedule_from_components first_index [seminar]
      [''C101''] [] [''Mon''] (at_time 8 0) (at_time 9 0))) = [''c4_A_1'', ''c4_A_0''] \<and>
   map (sort_columns [''Mon'']) (schedule_df (generate_schedule_from_components first_index
      [seminar] [''C101''] [] [''Mon''] (at_time 8 0) (at_time 9 0)))
     = [(''Fall'', 0, 480, ''A'', ''CSE104''), (''Fall'', 0, 480, ''A'', ''CSE104'')] \<and>
   \<not> sorted (map (spec_sort_key [''Mon'']) (schedule_df (generate_schedule_from_components
      first_index [seminar] [''C101''] [] [''Mon''] (at_time 8 0) (at_time 9 0))))"
  by code_simp

text \<open>
  Claim C9, as amended. The returned schedule is sorted by the five columns (semester,
  order of the day among the working days, start minute, section, course code), and the
  sort is stable: the rows with a given value of the five columns stand in the order in
  which the loop placed them.
\<close>

theorem result_ordering:
  "sorted (map (sort_columns working_days) (schedule_df (generate_schedule_from_components rnd
      class_components classrooms labs working_days start_time_obj end_time_obj))) \<and>
   (schedule_df (generate_schedule_from_components rnd class_components classrooms labs
      working_days start_time_obj end_time_obj) = [] \<or>
    (\<forall>k. filter (\<lambda>r. sort_columns working_days r = k)
           (schedule_df (generate_schedule_from_components rnd class_components classrooms labs
              working_days start_time_obj end_time_obj))
        = filter (\<lambda>r. sort_columns working_days r = k)
           (schedule_entries (fst (place_tasks classrooms labs working_days
              (time_to_minutes start_time_obj) (time_to_minutes end_time_obj)
              (shuffle rnd (tasks_to_schedule class_components))
              (initial_state (time_to_minutes start_time_obj), []))))))"
  using schedule_df_cases [of rnd class_components classrooms labs working_days
      start_time_obj end_time_obj]
  by (auto simp: sort_values_def sort_key_stable)

theorem result_ordering_witness:
  "schedule_df (generate_schedule_from_components first_index [seminar]
      [''C101''] [] [''Mon''] (at_time 8 0) (at_time 9 0)) \<noteq> [] \<and>
   sorted (map (sort_columns [''Mon'']) (schedule_df (generate_schedule_from_components
      first_index [seminar] [''C101''] [] [''Mon''] (at_time 8 0) (at_time 9 0)))) \<and>
   (\<forall>k. filter (\<lambda>r. sort_columns [''Mon''] r = k)
          (schedule_df (generate_schedule_from_components first_index [seminar]
             [''C101''] [] [''Mon''] (at_time 8 0) (at_time 9 0)))
       = filter (\<lambda>r. sort_columns [''Mon''] r = k)
          (schedule_entries (fst (place_tasks [''C101''] [] [''Mon'']
             (time_to_minutes (at_time 8 0)) (time_to_minutes (at_time 9 0))
             (shuffle first_index (tasks_to_schedule [seminar]))
             (initial_state (time_to_minutes (at_time 8 0)), [])))))"
proof -
  have ne: "schedule_df (generate_schedule_from_components first_index [seminar]
      [''C101''] [] [''Mon''] (at_time 8 0) (at_time 9 0)) \<noteq> []"
    by code_simp
  from result_ordering [of "[''Mon'']" first_index "[seminar]" "[''C101'']" "[]"
      "at_time 8 0" "at_time 9 0"] ne
  show ?thesis by blast
qed

subsection \<open>Dependence on the shuffle\<close>

text \<open>
  Claim C2 says that two runs on the same input return the same schedule. The tasks are
  shuffled before they are placed: on the components \<open>lecture\<close> and \<open>tutorial\<close>, the
  random source \<open>first_index\<close> places the tutorial at 08:00 and the lecture at 08:55, and
  the random source \<open>same_index\<close> places them the other way round.
\<close>

theorem determinism_counterexample:
  "map Component_ID (schedule_df (generate_schedule_from_components first_index
      [lecture, tutorial] [''C101''] [] [''Mon''] (at_time 8 0) (at_time 17 0)))
     = [''c3_A_0'', ''c1_A_0''] \<and>
   map Component_ID (schedule_df (generate_schedule_from_components same_index
      [lecture, tutorial] [''C101''] [] [''Mon''] (at_time 8 0) (at_time 17 0)))
     = [''c1_A_0'', ''c3_A_0''] \<and>
   map Start_Minute (schedule_df (generate_schedule_from_components first_index
      [lecture, tutorial] [''C101''] [] [''Mon''] (at_time 8 0) (at_time 17 0))) = [480, 535] \<and>
   map Start_Minute (schedule_df (generate_schedule_from_components same_index
      [lecture, tutorial] [''C101''] [] [''Mon''] (at_time 8 0) (at_time 17 0))) = [480, 535] \<and>
   generate_schedule_from_components first_index
      [lecture, tutorial] [''C101''] [] [''Mon''] (at_time 8 0) (at_time 17 0)
   \<noteq> generate_schedule_from_components same_index
      [lecture, tutorial] [''C101''] [] [''Mon''] (at_time 8 0) (at_time 17 0)"
  by code_simp

lemma shuffle_from_cong:
  assumes "\<forall>i. 0 < i \<and> i \<le> k \<longrightarrow> rnd i mod (i + 1) = rnd' i mod (i + 1)"
  shows "shuffle_from rnd k xs = shuffle_from rnd' k xs"
  using assms
proof (induction k arbitrary: xs)
  case 0
  then show ?case by simp
next
  case (Suc k)
  from Suc.prems have "rnd (Suc k) mod (Suc k + 1) = rnd' (Suc k) mod (Suc k + 1)"
    by blast
  moreover from Suc.prems
  have "\<forall>i. 0 < i \<and> i \<le> k \<longrightarrow> rnd i mod (i + 1) = rnd' i mod (i + 1)"
    by auto
  ultimately show ?case by (simp add: Suc.IH)
qed

text \<open>
  Claim C2, as amended. Two runs on the same input whose shuffles draw the same indices
  (the same number below \<open>i + 1\<close> at every index \<open>i\<close> from 1 up to the last task) return
  the same result.
\<close>

theorem determinism_given_draws:
  assumes "\<forall>i. 0 < i \<and> i < length (tasks_to_schedule class_components)
             \<longrightarrow> rnd i mod (i + 1) = rnd' i mod (i + 1)"
  shows "generate_schedule_from_components rnd class_components classrooms labs working_days
           start_time_obj end_time_obj
         = generate_schedule_from_components rnd' class_components classrooms labs working_days
           start_time_obj end_time_obj"
proof -
  have "shuffle rnd (tasks_to_schedule class_components)
          = shuffle rnd' (tasks_to_schedule class_components)"
    unfolding shuffle_def by (rule shuffle_from_cong) (use assms in auto)
  then show ?thesis
    by (simp add: generate_schedule_from_components_def)
qed

theorem determinism_given_draws_witness:
  "generate_schedule_from_components first_index [lecture, tutorial] [''C101''] [] [''Mon'']
      (at_time 8 0) (at_time 17 0)
   = generate_schedule_from_components Suc [lecture, tutorial] [''C101''] [] [''Mon'']
      (at_time 8 0) (at_time 17 0)"
proof -
  have "\<forall>i. 0 < i \<and> i < length (tasks_to_schedule [lecture, tutorial])
             \<longrightarrow> first_index i mod (i + 1) = Suc i mod (i + 1)"
    by (simp add: first_index_def)
  then show ?thesis
    by (rule determinism_given_draws)
qed

subsection \<open>Runs without a cursor reset\<close>

lemma attempt_fitting_cases [consumes 2, case_names placed no_room]:
  assumes "attempt cl lb wd sm em t s = (s', b)" and "\<not> overflows wd em t s"
  obtains
    (placed) k room where "b"
      "room_to_use cl lb t k = Some room" "room \<noteq> []"
      "schedule_entries s' = schedule_entries s
         @ [make_row t (day_of_pass wd s) (current_slot_time_per_day s (day_of_pass wd s)) room]"
      "current_slot_time_per_day s' =
         (current_slot_time_per_day s)(day_of_pass wd s :=
            current_slot_time_per_day s (day_of_pass wd s) + task_duration_minutes t + 5)"
  | (no_room) "\<not> b" "schedule_entries s' = schedule_entries s"
      "current_slot_time_per_day s' = current_slot_time_per_day s"
proof -
  define k where
    "k = ((day_index_counter s)(wd ! 0 := day_index_counter s (wd ! 0) + 1)) (day_of_pass wd s)"
  from assms(2)
  have fits: "current_slot_time_per_day s (day_of_pass wd s) + task_duration_minutes t \<le> em"
    by (simp add: overflows_def)
  show thesis
  proof (cases "truthy (room_to_use cl lb t k)")
    case True
    then obtain room where "room_to_use cl lb t k = Some room" "room \<noteq> []"
      by (auto simp: truthy_def)
    with fits assms(1) show ?thesis
      by (intro placed [of k room])
        (auto simp: attempt_def Let_def truthy_def day_of_pass_def k_def)
  next
    case False
    with fits assms(1) show ?thesis
      by (intro no_room) (auto simp: attempt_def Let_def day_of_pass_def k_def)
  qed
qed

lemma five_apart_sorted_wrt: "five_apart rows = sorted_wrt apart rows"
  by (induction rows) (simp_all add: list_all_iff)

lemma sorted_wrt_insort_key_sym:
  assumes "\<And>a b. P a b \<Longrightarrow> P b a"
  shows "sorted_wrt P (insort_key f x xs) \<longleftrightarrow> (\<forall>y \<in> set xs. P x y) \<and> sorted_wrt P xs"
  using assms by (induction xs) (auto simp: set_insort_key)

lemma sorted_wrt_sort_key_sym:
  assumes "\<And>a b. P a b \<Longrightarrow> P b a"
  shows "sorted_wrt P (sort_key f xs) \<longleftrightarrow> sorted_wrt P xs"
  by (induction xs) (simp_all add: sorted_wrt_insort_key_sym [of P, OF assms])

lemma attempt_in_sequence:
  assumes seq: "in_sequence s" and d0: "0 \<le> task_duration_minutes t"
    and fit: "\<not> overflows wd em t s" and a: "attempt cl lb wd sm em t s = (s', b)"
  shows "in_sequence s'"
  using a fit
proof (cases rule: attempt_fitting_cases)
  case (placed k room)
  let ?d = "day_of_pass wd s"
  let ?new = "make_row t ?d (current_slot_time_per_day s ?d) room"
  have new: "Day ?new = ?d" "Start_Minute ?new = current_slot_time_per_day s ?d"
    "End_Minute ?new = current_slot_time_per_day s ?d + task_duration_minutes t"
    by (simp_all add: make_row_def)
  from seq have fa: "five_apart (schedule_entries s)"
    and before: "\<forall>r \<in> set (schedule_entries s).
        End_Minute r + 5 \<le> current_slot_time_per_day s (Day r)"
    by (simp_all add: in_sequence_def)
  have "apart r ?new" if "r \<in> set (schedule_entries s)" for r
    using before that by (auto simp: apart_def new)
  with fa have 1: "five_apart (schedule_entries s')"
    by (simp add: placed(4) five_apart_sorted_wrt sorted_wrt_append)
  have 2: "End_Minute r + 5 \<le> current_slot_time_per_day s' (Day r)"
    if "r \<in> set (schedule_entries s')" for r
  proof -
    from that placed(4) consider "r = ?new" | "r \<in> set (schedule_entries s)" by auto
    then show ?thesis
    proof cases
      case 1
      then show ?thesis by (simp add: placed(5) new)
    next
      case 2
      with before have "End_Minute r + 5 \<le> current_slot_time_per_day s (Day r)" by blast
      with d0 show ?thesis by (auto simp: placed(5))
    qed
  qed
  from 1 2 show ?thesis by (simp add: in_sequence_def)
next
  case no_room
  with seq show ?thesis by (simp add: in_sequence_def)
qed

lemma try_days_in_sequence:
  assumes "in_sequence s" and "0 \<le> task_duration_minutes t"
    and "\<not> try_days_resets cl lb wd sm em t n s"
  shows "in_sequence (fst (try_days cl lb wd sm em t n s))"
  using assms
proof (induction n arbitrary: s)
  case 0
  then show ?case by simp
next
  case (Suc n)
  obtain s' b where a: "attempt cl lb wd sm em t s = (s', b)"
    by (cases "attempt cl lb wd sm em t s")
  from Suc.prems(3) have fit: "\<not> overflows wd em t s" by simp
  from Suc.prems(1,2) fit a have s': "in_sequence s'"
    by (rule attempt_in_sequence)
  show ?case
  proof (cases b)
    case True
    with a s' show ?thesis by simp
  next
    case False
    with a Suc.prems(3) have "\<not> try_days_resets cl lb wd sm em t n s'" by simp
    with s' Suc.prems(2) have "in_sequence (fst (try_days cl lb wd sm em t n s'))"
      by (rule Suc.IH)
    with a False show ?thesis by simp
  qed
qed

lemma place_tasks_in_sequence:
  assumes "in_sequence s" and "\<forall>t \<in> set ts. 0 \<le> task_duration_minutes t"
    and "\<not> place_tasks_resets cl lb wd sm em ts s"
  shows "in_sequence (fst (place_tasks cl lb wd sm em ts (s, u)))"
  using assms
proof (induction ts arbitrary: s u)
  case Nil
  then show ?case by simp
next
  case (Cons t ts)
  obtain s' a where td: "try_days cl lb wd sm em t (length wd) s = (s', a)"
    by (cases "try_days cl lb wd sm em t (length wd) s")
  from Cons.prems have "in_sequence (fst (try_days cl lb wd sm em t (length wd) s))"
    by (intro try_days_in_sequence) simp_all
  with td have s': "in_sequence s'" by simp
  from Cons.prems(3) td have "\<not> place_tasks_resets cl lb wd sm em ts s'" by simp
  with s' Cons.prems(2)
  have "in_sequence (fst (place_tasks cl lb wd sm em ts (s', if a then u else u @ [t])))"
    by (intro Cons.IH) simp_all
  with td show ?case by simp
qed

lemma five_apart_sort_values:
  "five_apart (sort_values wd rows) = five_apart rows"
  unfolding five_apart_sorted_wrt sort_values_def
  by (rule sorted_wrt_sort_key_sym) (auto simp: apart_def)

lemma five_apart_without_reset:
  assumes dur: "\<forall>c \<in> set class_components. 0 \<le> duration_minutes c"
    and noreset: "\<not> cursor_reset_occurs rnd class_components classrooms labs working_days
                     start_time_obj end_time_obj"
  shows "five_apart (schedule_df (generate_schedule_from_components rnd class_components
           classrooms labs working_days start_time_obj end_time_obj))"
proof -
  let ?sm = "time_to_minutes start_time_obj"
  let ?em = "time_to_minutes end_time_obj"
  let ?ts = "shuffle rnd (tasks_to_schedule class_components)"
  let ?p = "place_tasks classrooms labs working_days ?sm ?em ?ts (initial_state ?sm, [])"
  have "in_sequence (fst ?p)"
  proof (rule place_tasks_in_sequence)
    show "in_sequence (initial_state ?sm)"
      by (simp add: in_sequence_def initial_state_def)
    show "\<forall>t \<in> set ?ts. 0 \<le> task_duration_minutes t"
      using dur by (auto simp: set_shuffle intro: task_duration_nonneg)
    show "\<not> place_tasks_resets classrooms labs working_days ?sm ?em ?ts (initial_state ?sm)"
      using noreset by (simp add: cursor_reset_occurs_def)
  qed
  then have "five_apart (sort_values working_days (schedule_entries (fst ?p)))"
    by (simp add: in_sequence_def five_apart_sort_values)
  with schedule_df_cases [of rnd class_components classrooms labs working_days
      start_time_obj end_time_obj]
  show ?thesis by auto
qed


subsection \<open>The gap between consecutive bookings\<close>

lemma schedule_df_final:
  assumes "r \<in> set (schedule_df (generate_schedule_from_components rnd cc cl lb wd st en))"
  shows "schedule_df (generate_schedule_from_components rnd cc cl lb wd st en) =
     sort_values wd (schedule_entries (fst (place_tasks cl lb wd (time_to_minutes st)
        (time_to_minutes en) (shuffle rnd (tasks_to_schedule cc))
        (initial_state (time_to_minutes st), []))))"
  using assms schedule_df_cases [of rnd cc cl lb wd st en] by auto

text \<open>
  Claim C8 says that the engine leaves no gap between consecutive bookings, so that a
  session may start when the one before ends. The code moves the cursor of the day five
  minutes past the end of a placed session: with one day, one classroom and the window
  from 08:00 to 17:00, the lecture is placed from 480 to 530 and the tutorial starts at
  535, not at 530.
\<close>

theorem no_buffer_counterexample:
  "map Day (schedule_df (generate_schedule_from_components same_index [lecture, tutorial]
      [''C101''] [] [''Mon''] (at_time 8 0) (at_time 17 0))) = [''Mon'', ''Mon''] \<and>
   map Room_Lab (schedule_df (generate_schedule_from_components same_index [lecture, tutorial]
      [''C101''] [] [''Mon''] (at_time 8 0) (at_time 17 0))) = [''C101'', ''C101''] \<and>
   map Start_Minute (schedule_df (generate_schedule_from_components same_index
      [lecture, tutorial] [''C101''] [] [''Mon''] (at_time 8 0) (at_time 17 0))) = [480, 535] \<and>
   map End_Minute (schedule_df (generate_schedule_from_components same_index
      [lecture, tutorial] [''C101''] [] [''Mon''] (at_time 8 0) (at_time 17 0))) = [530, 585]"
  by code_simp

lemma starts_after_a_row:
  assumes r: "r \<in> set (schedule_df (generate_schedule_from_components rnd class_components
                 classrooms labs working_days start_time_obj end_time_obj))"
  shows "Start_Minute r = time_to_minutes start_time_obj \<or>
         (\<exists>r' \<in> set (schedule_df (generate_schedule_from_components rnd class_components
                 classrooms labs working_days start_time_obj end_time_obj)).
            Day r' = Day r \<and> Start_Minute r = End_Minute r' + 5)"
proof -
  let ?sm = "time_to_minutes start_time_obj"
  let ?p = "place_tasks classrooms labs working_days ?sm (time_to_minutes end_time_obj)
      (shuffle rnd (tasks_to_schedule class_components)) (initial_state ?sm, [])"
  let ?I = "\<lambda>s::sched_state.
      (\<forall>d. current_slot_time_per_day s d = ?sm \<or>
           (\<exists>r' \<in> set (schedule_entries s). Day r' = d \<and>
               current_slot_time_per_day s d = End_Minute r' + 5)) \<and>
      (\<forall>r \<in> set (schedule_entries s). Start_Minute r = ?sm \<or>
           (\<exists>r' \<in> set (schedule_entries s). Day r' = Day r \<and>
               Start_Minute r = End_Minute r' + 5))"
  have "?I (fst ?p)"
  proof (rule place_tasks_invariant [where I = ?I])
    show "?I (initial_state ?sm)"
      by (simp add: initial_state_def)
  next
    fix t s s' b
    assume I: "?I s"
      and a: "attempt classrooms labs working_days ?sm (time_to_minutes end_time_obj) t s = (s', b)"
    from I have cur: "\<forall>d. current_slot_time_per_day s d = ?sm \<or>
           (\<exists>r' \<in> set (schedule_entries s). Day r' = d \<and>
               current_slot_time_per_day s d = End_Minute r' + 5)"
      and rows: "\<forall>r \<in> set (schedule_entries s). Start_Minute r = ?sm \<or>
           (\<exists>r' \<in> set (schedule_entries s). Day r' = Day r \<and>
               Start_Minute r = End_Minute r' + 5)"
      by blast+
    from a show "?I s'"
    proof (cases rule: attempt_cases)
      case (placed d k room)
      let ?new = "make_row t d (current_slot_time_per_day s d) room"
      have new: "Day ?new = d" "Start_Minute ?new = current_slot_time_per_day s d"
        "End_Minute ?new = current_slot_time_per_day s d + task_duration_minutes t"
        by (simp_all add: make_row_def)
      have ent: "set (schedule_entries s') = insert ?new (set (schedule_entries s))"
        using placed by simp
      have c': "\<forall>d'. current_slot_time_per_day s' d' = ?sm \<or>
           (\<exists>r' \<in> set (schedule_entries s'). Day r' = d' \<and>
               current_slot_time_per_day s' d' = End_Minute r' + 5)"
      proof
        fix d'
        show "current_slot_time_per_day s' d' = ?sm \<or>
           (\<exists>r' \<in> set (schedule_entries s'). Day r' = d' \<and>
               current_slot_time_per_day s' d' = End_Minute r' + 5)"
        proof (cases "d' = d")
          case True
          with placed(6) new ent show ?thesis by auto
        next
          case False
          with placed(6) cur [rule_format, of d'] ent show ?thesis by auto
        qed
      qed
      have r': "\<forall>r \<in> set (schedule_entries s'). Start_Minute r = ?sm \<or>
           (\<exists>r' \<in> set (schedule_entries s'). Day r' = Day r \<and>
               Start_Minute r = End_Minute r' + 5)"
      proof
        fix r assume "r \<in> set (schedule_entries s')"
        with ent consider "r = ?new" | "r \<in> set (schedule_entries s)" by auto
        then show "Start_Minute r = ?sm \<or>
           (\<exists>r' \<in> set (schedule_entries s'). Day r' = Day r \<and>
               Start_Minute r = End_Minute r' + 5)"
        proof cases
          case 1
          with cur [rule_format, of d] new ent show ?thesis by auto
        next
          case 2
          with rows ent show ?thesis by auto
        qed
      qed
      from c' r' show ?thesis by blast
    next
      case no_room
      with I show ?thesis by simp
    next
      case (overflow d)
      with I show ?thesis by simp
    qed
  qed
  moreover have "set (schedule_df (generate_schedule_from_components rnd class_components
       classrooms labs working_days start_time_obj end_time_obj)) = set (schedule_entries (fst ?p))"
    using schedule_df_final [OF r] by simp
  ultimately show ?thesis using r by blast
qed

lemma five_apart_members:
  assumes "five_apart rows" and "r \<in> set rows" and "r' \<in> set rows" and "r \<noteq> r'"
  shows "apart r r'"
proof -
  from assms(2,3) obtain i j where i: "i < length rows" "rows ! i = r"
    and j: "j < length rows" "rows ! j = r'"
    by (auto simp: in_set_conv_nth)
  with assms(4) have "i \<noteq> j" by auto
  then consider "i < j" | "j < i" by linarith
  then show ?thesis
  proof cases
    case 1
    with assms(1) i j show ?thesis
      by (auto simp: five_apart_sorted_wrt sorted_wrt_iff_nth_less)
  next
    case 2
    with assms(1) i j have "apart r' r"
      by (auto simp: five_apart_sorted_wrt sorted_wrt_iff_nth_less)
    then show ?thesis by (auto simp: apart_def)
  qed
qed

lemma row_ends_after_start:
  assumes dur: "\<forall>c \<in> set class_components. 0 \<le> duration_minutes c"
    and r: "r \<in> set (schedule_df (generate_schedule_from_components rnd class_components
                 classrooms labs working_days start_time_obj end_time_obj))"
  shows "Start_Minute r \<le> End_Minute r"
proof -
  from r obtain t where t: "t \<in> set (tasks_to_schedule class_components)"
    and m: "made_from classrooms labs (time_to_minutes end_time_obj) t r"
    using rows_made_from by blast
  from m have "r = make_row t (Day r) (Start_Minute r) (Room_Lab r)"
    by (simp add: made_from_def)
  then have "End_Minute r = Start_Minute r + task_duration_minutes t"
    by (metis row.select_convs(4) make_row_def)
  with task_duration_nonneg [OF dur t] show ?thesis by simp
qed

lemma no_start_at_an_end:
  assumes dur: "\<forall>c \<in> set class_components. 0 \<le> duration_minutes c"
    and noreset: "\<not> cursor_reset_occurs rnd class_components classrooms labs working_days
                     start_time_obj end_time_obj"
    and r: "r \<in> set (schedule_df (generate_schedule_from_components rnd class_components
                 classrooms labs working_days start_time_obj end_time_obj))"
    and r': "r' \<in> set (schedule_df (generate_schedule_from_components rnd class_components
                 classrooms labs working_days start_time_obj end_time_obj))"
    and ne: "r \<noteq> r'" and day: "Day r = Day r'"
  shows "Start_Minute r \<noteq> End_Minute r'"
proof
  assume eq: "Start_Minute r = End_Minute r'"
  from five_apart_without_reset [OF dur noreset] r r' ne have "apart r r'"
    by (rule five_apart_members)
  with day eq have "End_Minute r + 5 \<le> Start_Minute r'"
    by (simp add: apart_def)
  moreover from dur r have "Start_Minute r \<le> End_Minute r" by (rule row_ends_after_start)
  moreover from dur r' have "Start_Minute r' \<le> End_Minute r'" by (rule row_ends_after_start)
  ultimately show False using eq by linarith
qed

text \<open>
  Claim C8, as amended. Every row of the returned schedule starts either at the start of
  the daily window or exactly five minutes after the end of a row of the same day. In a
  run without a cursor reset, no component having a negative duration, every two rows of
  the same day are at least five minutes apart, and no row starts at the minute at which
  another row of its day ends.
\<close>

theorem five_minute_buffer:
  "(\<forall>r \<in> set (schedule_df (generate_schedule_from_components rnd class_components
              classrooms labs working_days start_time_obj end_time_obj)).
      Start_Minute r = time_to_minutes start_time_obj \<or>
      (\<exists>r' \<in> set (schedule_df (generate_schedule_from_components rnd class_components
                 classrooms labs working_days start_time_obj end_time_obj)).
         Day r' = Day r \<and> Start_Minute r = End_Minute r' + 5)) \<and>
   ((\<forall>c \<in> set class_components. 0 \<le> duration_minutes c) \<and>
    \<not> cursor_reset_occurs rnd class_components classrooms labs working_days
        start_time_obj end_time_obj
    \<longrightarrow> five_apart (schedule_df (generate_schedule_from_components rnd class_components
           classrooms labs working_days start_time_obj end_time_obj)) \<and>
        (\<forall>r \<in> set (schedule_df (generate_schedule_from_components rnd class_components
                   classrooms labs working_days start_time_obj end_time_obj)).
         \<forall>r' \<in> set (schedule_df (generate_schedule_from_components rnd class_components
                   classrooms labs working_days start_time_obj end_time_obj)).
           r \<noteq> r' \<and> Day r = Day r' \<longrightarrow> Start_Minute r \<noteq> End_Minute r'))"
  using starts_after_a_row [of _ rnd class_components classrooms labs working_days
      start_time_obj end_time_obj]
    five_apart_without_reset [of class_components rnd classrooms labs working_days
      start_time_obj end_time_obj]
    no_start_at_an_end [of class_components rnd classrooms labs working_days
      start_time_obj end_time_obj]
  by blast

theorem five_minute_buffer_witness:
  "make_row (make_task tutorial ''A'' 0) ''Mon'' 535 ''C101''
     \<in> set (schedule_df (generate_schedule_from_components same_index [lecture, tutorial]
          [''C101''] [] [''Mon''] (at_time 8 0) (at_time 17 0))) \<and>
   Start_Minute (make_row (make_task tutorial ''A'' 0) ''Mon'' 535 ''C101'')
     \<noteq> time_to_minutes (at_time 8 0) \<and>
   (\<exists>r' \<in> set (schedule_df (generate_schedule_from_components same_index [lecture, tutorial]
          [''C101''] [] [''Mon''] (at_time 8 0) (at_time 17 0))).
      Day r' = Day (make_row (make_task tutorial ''A'' 0) ''Mon'' 535 ''C101'') \<and>
      Start_Minute (make_row (make_task tutorial ''A'' 0) ''Mon'' 535 ''C101'')
        = End_Minute r' + 5) \<and>
   \<not> cursor_reset_occurs same_index [lecture, tutorial] [''C101''] [] [''Mon'']
       (at_time 8 0) (at_time 17 0) \<and>
   five_apart (schedule_df (generate_schedule_from_components same_index [lecture, tutorial]
      [''C101''] [] [''Mon''] (at_time 8 0) (at_time 17 0))) \<and>
   make_row (make_task lecture ''A'' 0) ''Mon'' 480 ''C101''
     \<in> set (schedule_df (generate_schedule_from_components same_index [lecture, tutorial]
          [''C101''] [] [''Mon''] (at_time 8 0) (at_time 17 0))) \<and>
   Start_Minute (make_row (make_task tutorial ''A'' 0) ''Mon'' 535 ''C101'')
     \<noteq> End_Minute (make_row (make_task lecture ''A'' 0) ''Mon'' 480 ''C101'')"
proof -
  have r0: "make_row (make_task lecture ''A'' 0) ''Mon'' 480 ''C101''
     \<in> set (schedule_df (generate_schedule_from_components same_index [lecture, tutorial]
          [''C101''] [] [''Mon''] (at_time 8 0) (at_time 17 0)))"
    by code_simp
  have rne: "make_row (make_task tutorial ''A'' 0) ''Mon'' 535 ''C101''
     \<noteq> make_row (make_task lecture ''A'' 0) ''Mon'' 480 ''C101''"
    by (simp add: make_row_def)
  have rday: "Day (make_row (make_task tutorial ''A'' 0) ''Mon'' 535 ''C101'')
     = Day (make_row (make_task lecture ''A'' 0) ''Mon'' 480 ''C101'')"
    by (simp add: make_row_def)
  have r: "make_row (make_task tutorial ''A'' 0) ''Mon'' 535 ''C101''
     \<in> set (schedule_df (generate_schedule_from_components same_index [lecture, tutorial]
          [''C101''] [] [''Mon''] (at_time 8 0) (at_time 17 0)))"
    by code_simp
  have ne: "Start_Minute (make_row (make_task tutorial ''A'' 0) ''Mon'' 535 ''C101'')
     \<noteq> time_to_minutes (at_time 8 0)"
    by code_simp
  have dur: "\<forall>c \<in> set [lecture, tutorial]. 0 \<le> duration_minutes c"
    by (simp add: lecture_def tutorial_def)
  have noreset: "\<not> cursor_reset_occurs same_index [lecture, tutorial] [''C101''] [] [''Mon'']
       (at_time 8 0) (at_time 17 0)"
    by code_simp
  from five_minute_buffer [of same_index "[lecture, tutorial]" "[''C101'']" "[]" "[''Mon'']"
      "at_time 8 0" "at_time 17 0"] r ne dur noreset r0 rne rday
  show ?thesis by blast
qed

subsection \<open>Room exclusivity\<close>


lemma room_exclusive_sorted_wrt:
  "room_exclusive rows = sorted_wrt (\<lambda>r r'. \<not> clash r r') rows"
  by (induction rows) (simp_all add: list_all_iff)

lemma room_exclusive_nth:
  "room_exclusive rows \<longleftrightarrow>
     (\<forall>i < length rows. \<forall>j < length rows. i \<noteq> j \<longrightarrow> \<not> clash (rows ! i) (rows ! j))"
proof -
  have sym: "clash r r' \<longleftrightarrow> clash r' r" for r r'
    by (auto simp: clash_def overlaps_def)
  show ?thesis
  proof
    assume "room_exclusive rows"
    then have *: "\<forall>i j. i < j \<longrightarrow> j < length rows \<longrightarrow> \<not> clash (rows ! i) (rows ! j)"
      by (simp add: room_exclusive_sorted_wrt sorted_wrt_iff_nth_less)
    show "\<forall>i < length rows. \<forall>j < length rows. i \<noteq> j \<longrightarrow> \<not> clash (rows ! i) (rows ! j)"
    proof (intro allI impI)
      fix i j assume "i < length rows" "j < length rows" "i \<noteq> j"
      then consider "i < j" | "j < i" by linarith
      then show "\<not> clash (rows ! i) (rows ! j)"
      proof cases
        case 1
        with * \<open>j < length rows\<close> show ?thesis by blast
      next
        case 2
        with * \<open>i < length rows\<close> have "\<not> clash (rows ! j) (rows ! i)" by blast
        with sym show ?thesis by blast
      qed
    qed
  next
    assume "\<forall>i < length rows. \<forall>j < length rows. i \<noteq> j \<longrightarrow> \<not> clash (rows ! i) (rows ! j)"
    then show "room_exclusive rows"
      by (simp add: room_exclusive_sorted_wrt sorted_wrt_iff_nth_less)
  qed
qed






end
